theory Spec2Isabelle
  imports Main "HOL-Library.Word"
begin

section \<open>The data model of \<open>src/datadog-setup/app.py\<close>\<close>

text \<open>
  The service keeps decoded JSON values. A decoded JSON document is, in Python, one of
  \<open>None\<close>, a \<open>bool\<close>, an \<open>int\<close> (unbounded), a \<open>float\<close> (an IEEE 754 binary64, kept
  here as its 64 bits, so no floating-point arithmetic is involved), a \<open>str\<close>, a \<open>list\<close>
  or a \<open>dict\<close> with string keys (insertion ordered, kept as the list of its entries).
  The handlers never look inside a payload: they test its truth value, store it and
  send it back.
\<close>

datatype json =
    JNull
  | JBool bool
  | JInt int
  | JFloat "64 word"
  | JStr string
  | JArr "json list"
  | JObj "(string \<times> json) list"

text \<open>
  Python's truth value of a decoded JSON value, as tested by \<open>if not request_data\<close>:
  \<open>None\<close>, \<open>False\<close>, \<open>0\<close>, \<open>0.0\<close> and \<open>-0.0\<close> (every bit but the sign bit clear), the empty
  string, the empty list and the empty dict are false; everything else is true.
\<close>

fun truthy :: "json \<Rightarrow> bool" where
  "truthy JNull = False"
| "truthy (JBool b) = b"
| "truthy (JInt i) = (i \<noteq> 0)"
| "truthy (JFloat w) = (push_bit 1 w \<noteq> 0)"
| "truthy (JStr s) = (s \<noteq> [])"
| "truthy (JArr xs) = (xs \<noteq> [])"
| "truthy (JObj kvs) = (kvs \<noteq> [])"

text \<open>Reading a key of a JSON object (\<open>None\<close> when the key is absent or the value is no object).\<close>

fun field :: "string \<Rightarrow> json \<Rightarrow> json option" where
  "field k (JObj kvs) = map_of kvs k"
| "field k _ = None"

text \<open>
  An element of \<open>data_store\<close>: the dict built at lines 96-101, with its four fixed keys
  \<open>id\<close>, \<open>data\<close>, \<open>created_at\<close> and \<open>created_by\<close> (\<open>request.remote_addr\<close> may be \<open>None\<close>).
\<close>

record item =
  item_id :: string
  item_data :: json
  created_at :: string
  created_by :: "string option"

type_synonym data_store = "item list"

text \<open>What \<open>jsonify\<close> makes of a stored item.\<close>

definition item_json :: "item \<Rightarrow> json" where
  "item_json it = JObj
     [(''id'', JStr (item_id it)),
      (''data'', item_data it),
      (''created_at'', JStr (created_at it)),
      (''created_by'', (case created_by it of None \<Rightarrow> JNull | Some a \<Rightarrow> JStr a))]"

text \<open>
  What a handler reads from outside the program during one call: the string of a new
  \<open>uuid.uuid4()\<close>, \<open>datetime.now().isoformat()\<close>, the environment variable \<open>ENVIRONMENT\<close>,
  \<open>os.sys.version\<close> and \<open>os.name\<close>.
\<close>

record env =
  uuid4 :: string
  now :: string
  ENVIRONMENT :: "string option"
  sys_version :: string
  os_name :: string

text \<open>
  What a handler reads from Flask's \<open>request\<close>. \<open>is_json\<close> is the property of that name
  (the content type announces JSON). \<open>get_json\<close> is the outcome of \<open>request.get_json()\<close>,
  which the handler calls with no argument and only when \<open>is_json\<close> holds: \<open>Inr v\<close> when
  the body decodes to the JSON value \<open>v\<close>, and \<open>Inl s\<close> when the body does not decode
  (malformed JSON, or no bytes at all). In that case Flask calls
  \<open>on_json_loading_failed\<close>, which raises \<open>werkzeug.exceptions.BadRequest\<close>; that class
  derives from \<open>HTTPException\<close> and so from \<open>Exception\<close>, and \<open>s\<close> is its \<open>str\<close>.
\<close>

record request =
  is_json :: bool
  get_json :: "string + json"
  remote_addr :: "string option"
  path :: string
  url :: string

record response =
  status :: nat
  body :: json
  headers :: "(string \<times> string) list"

text \<open>\<open>jsonify\<close>: a response with the JSON body, status 200 and the JSON content type.\<close>

definition jsonify :: "json \<Rightarrow> response" where
  "jsonify j = \<lparr>status = 200, body = j, headers = [(''Content-Type'', ''application/json'')]\<rparr>"

text \<open>\<open>response.headers[k] = v\<close>: replaces the header when present, adds it otherwise.\<close>

fun set_header :: "string \<Rightarrow> string \<Rightarrow> (string \<times> string) list \<Rightarrow> (string \<times> string) list" where
  "set_header k v [] = [(k, v)]"
| "set_header k v ((k', v') # hs) =
     (if k' = k then (k, v) # hs else (k', v') # set_header k v hs)"

text \<open>Python's \<open>str\<close> of a non-negative \<open>int\<close>, as an f-string formats \<open>items_count\<close>.\<close>

definition digit :: "nat \<Rightarrow> char" where
  "digit d = ''0123456789'' ! (d mod 10)"

fun str_nat :: "nat \<Rightarrow> string" where
  "str_nat n = (if n < 10 then [digit n] else str_nat (n div 10) @ [digit (n mod 10)])"

declare str_nat.simps [simp del]

section \<open>The handlers\<close>

definition health_check :: "env \<Rightarrow> response" where
  "health_check e = jsonify (JObj
     [(''status'', JStr ''healthy''),
      (''service'', JStr ''python-api''),
      (''timestamp'', JStr (now e)),
      (''version'', JStr ''1.0.0'')])"

definition root :: "env \<Rightarrow> response" where
  "root e = jsonify (JObj
     [(''message'', JStr ''Python API for ECS Fargate''),
      (''service'', JStr ''python-api''),
      (''version'', JStr ''1.0.0''),
      (''endpoints'', JObj
         [(''GET /'', JStr ''API information''),
          (''GET /health'', JStr ''Health check''),
          (''GET /api/data'', JStr ''Get all data items''),
          (''POST /api/data'', JStr ''Create new data item''),
          (''GET /api/data/<id>'', JStr ''Get specific data item''),
          (''GET /api/status'', JStr ''Service status'')]),
      (''timestamp'', JStr (now e))])"

definition get_data :: "env \<Rightarrow> data_store \<Rightarrow> response" where
  "get_data e data_store =
     (let response = jsonify (JObj
            [(''success'', JBool True),
             (''data'', JArr (map item_json data_store)),
             (''count'', JInt (int (length data_store))),
             (''timestamp'', JStr (now e))]);
          h1 = set_header ''Cache-Control'' ''no-cache, no-store, must-revalidate'' (headers response);
          h2 = set_header ''Pragma'' ''no-cache'' h1;
          h3 = set_header ''Expires'' ''0'' h2;
          h4 = set_header ''Content-Type'' ''application/json'' h3
      in response\<lparr>status := 200, headers := h4\<rparr>)"

text \<open>
  \<open>create_data\<close>, lines 77-127. The whole body is inside \<open>try\<close>; the one statement that can
  raise is \<open>request.get_json()\<close>, and \<open>except Exception\<close> answers 500 with \<open>str(e)\<close> as
  \<open>details\<close>. The store is returned as the handler leaves it.
\<close>

definition create_data :: "env \<Rightarrow> request \<Rightarrow> data_store \<Rightarrow> response \<times> data_store" where
  "create_data e rq data_store =
     (if \<not> is_json rq then
        ((jsonify (JObj
            [(''success'', JBool False),
             (''error'', JStr ''Content-Type must be application/json'')]))\<lparr>status := 400\<rparr>,
         data_store)
      else case get_json rq of
        Inl exn \<Rightarrow>
          ((jsonify (JObj
              [(''success'', JBool False),
               (''error'', JStr ''Internal server error''),
               (''details'', JStr exn)]))\<lparr>status := 500\<rparr>,
           data_store)
      | Inr request_data \<Rightarrow>
          if \<not> truthy request_data then
            ((jsonify (JObj
                [(''success'', JBool False),
                 (''error'', JStr ''Request body cannot be empty'')]))\<lparr>status := 400\<rparr>,
             data_store)
          else
            (let new_item = \<lparr>item_id = uuid4 e, item_data = request_data,
                             created_at = now e, created_by = remote_addr rq\<rparr>;
                 data_store' = data_store @ [new_item];
                 response = jsonify (JObj
                   [(''success'', JBool True),
                    (''message'', JStr ''Data created successfully''),
                    (''item'', item_json new_item),
                    (''total_items'', JInt (int (length data_store')))]);
                 h1 = set_header ''Content-Type'' ''application/json'' (headers response);
                 h2 = set_header ''Cache-Control'' ''no-cache'' h1
             in (response\<lparr>status := 201, headers := h2\<rparr>, data_store')))"

text \<open>
  \<open>get_data_by_id\<close>, lines 130-147: \<open>next\<close> over the generator is the first stored item
  with that id, or \<open>None\<close>; a found item is a dict of four keys, so \<open>not item\<close> is exactly
  the case \<open>None\<close>.
\<close>

definition get_data_by_id :: "env \<Rightarrow> string \<Rightarrow> data_store \<Rightarrow> response" where
  "get_data_by_id e i data_store =
     (case find (\<lambda>it. item_id it = i) data_store of
        None \<Rightarrow>
          (jsonify (JObj
             [(''success'', JBool False),
              (''error'', JStr (''Item with ID '' @ i @ '' not found''))]))\<lparr>status := 404\<rparr>
      | Some it \<Rightarrow>
          (jsonify (JObj
             [(''success'', JBool True),
              (''item'', item_json it),
              (''timestamp'', JStr (now e))]))\<lparr>status := 200\<rparr>)"

definition get_status :: "env \<Rightarrow> data_store \<Rightarrow> response" where
  "get_status e data_store = jsonify (JObj
     [(''service'', JStr ''python-api''),
      (''status'', JStr ''running''),
      (''version'', JStr ''1.0.0''),
      (''environment'', JStr (case ENVIRONMENT e of None \<Rightarrow> ''development'' | Some v \<Rightarrow> v)),
      (''statistics'', JObj
         [(''total_items'', JInt (int (length data_store))),
          (''uptime'', JStr ''running''),
          (''last_activity'', JStr (now e))]),
      (''system_info'', JObj
         [(''python_version'', JStr (sys_version e)),
          (''platform'', JStr (os_name e))])])"

definition clear_data :: "env \<Rightarrow> data_store \<Rightarrow> response \<times> data_store" where
  "clear_data e data_store =
     (let items_count = length data_store
      in (jsonify (JObj
            [(''success'', JBool True),
             (''message'', JStr (''Cleared '' @ str_nat items_count @ '' items'')),
             (''timestamp'', JStr (now e))]),
          []))"

definition not_found :: "request \<Rightarrow> response" where
  "not_found rq =
     (jsonify (JObj
        [(''success'', JBool False),
         (''error'', JStr ''Endpoint not found''),
         (''requested_path'', JStr (path rq))]))\<lparr>status := 404\<rparr>"

definition internal_error :: response where
  "internal_error =
     (jsonify (JObj
        [(''success'', JBool False),
         (''error'', JStr ''Internal server error'')]))\<lparr>status := 500\<rparr>"

section \<open>Serving requests one after the other\<close>

text \<open>
  A request after routing: the view function that the route table (the \<open>@app.route\<close>
  decorators) selects, with what it reads from the request; \<open>Unmatched\<close> is a path with
  no route, served by the 404 handler.
\<close>

datatype call =
    Health
  | Root
  | GetData
  | CreateData request
  | GetDataById string
  | GetStatus
  | ClearData
  | Unmatched request

fun handle :: "env \<Rightarrow> call \<Rightarrow> data_store \<Rightarrow> response \<times> data_store" where
  "handle e Health st = (health_check e, st)"
| "handle e Root st = (root e, st)"
| "handle e GetData st = (get_data e st, st)"
| "handle e (CreateData rq) st = create_data e rq st"
| "handle e (GetDataById i) st = (get_data_by_id e i st, st)"
| "handle e GetStatus st = (get_status e st, st)"
| "handle e ClearData st = clear_data e st"
| "handle e (Unmatched rq) st = (not_found rq, st)"

text \<open>
  A run serves the calls in order, each with its own reads of the outside world, and
  gives the trace of calls with their responses and the final store.
\<close>

fun run :: "(env \<times> call) list \<Rightarrow> data_store \<Rightarrow> (call \<times> response) list \<times> data_store" where
  "run [] st = ([], st)"
| "run ((e, c) # evs) st =
     (case handle e c st of (r, st') \<Rightarrow>
        (case run evs st' of (tr, st'') \<Rightarrow> ((c, r) # tr, st'')))"

text \<open>The id of the item in a response body, when the body has one.\<close>

definition returned_id :: "response \<Rightarrow> string option" where
  "returned_id r =
     (case field ''item'' (body r) of
        Some it \<Rightarrow> (case field ''id'' it of Some (JStr i) \<Rightarrow> Some i | _ \<Rightarrow> None)
      | None \<Rightarrow> None)"

text \<open>The payload of the item in a response body, when the body has one.\<close>

definition returned_data :: "response \<Rightarrow> json option" where
  "returned_data r =
     (case field ''item'' (body r) of Some it \<Rightarrow> field ''data'' it | None \<Rightarrow> None)"

text \<open>The payloads of the POSTs of a trace that were answered 201, in the order served.\<close>

fun posted :: "(call \<times> response) list \<Rightarrow> json list" where
  "posted [] = []"
| "posted ((CreateData rq, r) # tr) =
     (if status r = 201 then (case get_json rq of Inr v \<Rightarrow> v # posted tr | Inl _ \<Rightarrow> posted tr)
      else posted tr)"
| "posted ((_, r) # tr) = posted tr"

text \<open>The ids handed out by the POSTs of a trace that were answered 201.\<close>

fun returned_ids :: "(call \<times> response) list \<Rightarrow> string list" where
  "returned_ids [] = []"
| "returned_ids ((CreateData rq, r) # tr) =
     (if status r = 201 then (case returned_id r of Some i \<Rightarrow> i # returned_ids tr | None \<Rightarrow> returned_ids tr)
      else returned_ids tr)"
| "returned_ids ((_, r) # tr) = returned_ids tr"

text \<open>No call of the list is the DELETE.\<close>

fun no_delete :: "(env \<times> call) list \<Rightarrow> bool" where
  "no_delete [] = True"
| "no_delete ((e, c) # evs) = (c \<noteq> ClearData \<and> no_delete evs)"

text \<open>The number of POSTs of a trace that were answered 201.\<close>

fun successes :: "(call \<times> response) list \<Rightarrow> nat" where
  "successes [] = 0"
| "successes ((CreateData rq, r) # tr) = (if status r = 201 then Suc (successes tr) else successes tr)"
| "successes ((_, r) # tr) = successes tr"

text \<open>\<open>statistics.total_items\<close> of a response body, when the body has it.\<close>

definition statistics_total_items :: "response \<Rightarrow> json option" where
  "statistics_total_items r =
     (case field ''statistics'' (body r) of Some s \<Rightarrow> field ''total_items'' s | None \<Rightarrow> None)"

section \<open>Example inputs\<close>

definition ex_env1 :: env where
  "ex_env1 = \<lparr>uuid4 = ''6f1c2a9e-58b4-4c1d-9a77-0d3e5b2f4a10'', now = ''2024-05-01T10:00:00.000125'',
     ENVIRONMENT = None, sys_version = ''3.11.4 (main)'', os_name = ''posix''\<rparr>"

definition ex_env2 :: env where
  "ex_env2 = \<lparr>uuid4 = ''b82d7e03-1f6a-4e59-8c2b-7a9d4c6e1f55'', now = ''2024-05-01T10:00:01.250000'',
     ENVIRONMENT = Some ''production'', sys_version = ''3.11.4 (main)'', os_name = ''posix''\<rparr>"

definition ex_env3 :: env where
  "ex_env3 = \<lparr>uuid4 = ''0a4e9c71-3d2f-4b86-b5e0-92c1f7a8d366'', now = ''2024-05-01T10:00:02.000000'',
     ENVIRONMENT = None, sys_version = ''3.11.4 (main)'', os_name = ''posix''\<rparr>"

text \<open>\<open>POST /api/data\<close> with \<open>Content-Type: application/json\<close> and body \<open>{"name":"widget"}\<close>.\<close>

definition ex_widget :: request where
  "ex_widget = \<lparr>is_json = True, get_json = Inr (JObj [(''name'', JStr ''widget'')]),
     remote_addr = Some ''10.0.0.7'', path = ''/api/data'', url = ''http://api.local/api/data''\<rparr>"

text \<open>The same with body \<open>[1, 2]\<close>.\<close>

definition ex_pair :: request where
  "ex_pair = \<lparr>is_json = True, get_json = Inr (JArr [JInt 1, JInt 2]),
     remote_addr = Some ''10.0.0.8'', path = ''/api/data'', url = ''http://api.local/api/data''\<rparr>"

text \<open>The same with the body \<open>{"name":\<close>, which does not decode.\<close>

definition ex_malformed :: request where
  "ex_malformed = \<lparr>is_json = True,
     get_json = Inl ''400 Bad Request: The browser (or proxy) sent a request that this server could not understand.'',
     remote_addr = Some ''10.0.0.7'', path = ''/api/data'', url = ''http://api.local/api/data''\<rparr>"

text \<open>The same with a body of no bytes, which does not decode either.\<close>

definition ex_no_bytes :: request where
  "ex_no_bytes = \<lparr>is_json = True,
     get_json = Inl ''400 Bad Request: The browser (or proxy) sent a request that this server could not understand.'',
     remote_addr = Some ''10.0.0.9'', path = ''/api/data'', url = ''http://api.local/api/data''\<rparr>"

text \<open>\<open>POST /api/data\<close> with \<open>Content-Type: text/plain\<close>; \<open>get_json\<close> is not reached.\<close>

definition ex_plain_text :: request where
  "ex_plain_text = \<lparr>is_json = False, get_json = Inr (JStr ''hello''),
     remote_addr = Some ''10.0.0.7'', path = ''/api/data'', url = ''http://api.local/api/data''\<rparr>"

text \<open>A store of one item, as a POST of \<open>{"k": true}\<close> leaves it.\<close>

definition ex_store :: data_store where
  "ex_store = [\<lparr>item_id = ''c3d5e7f9-2b4a-4c6e-8f10-1a2b3c4d5e6f'', item_data = JObj [(''k'', JBool True)],
     created_at = ''2024-05-01T09:59:00.000000'', created_by = Some ''10.0.0.5''\<rparr>]"

section \<open>Facts about the handlers\<close>

lemma find_append_first:
  "find P (xs @ ys) = (case find P xs of None \<Rightarrow> find P ys | Some x \<Rightarrow> Some x)"
  by (induction xs) auto

lemma status_jsonify [simp]: "status (jsonify j) = 200"
  and body_jsonify [simp]: "body (jsonify j) = j"
  by (simp_all add: jsonify_def)

lemma create_data_not_json:
  "\<not> is_json rq \<Longrightarrow> create_data e rq st =
     ((jsonify (JObj [(''success'', JBool False),
         (''error'', JStr ''Content-Type must be application/json'')]))\<lparr>status := 400\<rparr>, st)"
  by (simp add: create_data_def)

lemma create_data_raises:
  "is_json rq \<Longrightarrow> get_json rq = Inl exn \<Longrightarrow> create_data e rq st =
     ((jsonify (JObj [(''success'', JBool False), (''error'', JStr ''Internal server error''),
         (''details'', JStr exn)]))\<lparr>status := 500\<rparr>, st)"
  by (simp add: create_data_def)

lemma create_data_falsy:
  "is_json rq \<Longrightarrow> get_json rq = Inr v \<Longrightarrow> \<not> truthy v \<Longrightarrow> create_data e rq st =
     ((jsonify (JObj [(''success'', JBool False),
         (''error'', JStr ''Request body cannot be empty'')]))\<lparr>status := 400\<rparr>, st)"
  by (simp add: create_data_def)

lemma create_data_truthy:
  assumes "is_json rq" "get_json rq = Inr v" "truthy v"
  shows "status (fst (create_data e rq st)) = 201"
    and "body (fst (create_data e rq st)) = JObj
           [(''success'', JBool True),
            (''message'', JStr ''Data created successfully''),
            (''item'', item_json \<lparr>item_id = uuid4 e, item_data = v,
                                   created_at = now e, created_by = remote_addr rq\<rparr>),
            (''total_items'', JInt (int (length st) + 1))]"
    and "snd (create_data e rq st) =
           st @ [\<lparr>item_id = uuid4 e, item_data = v, created_at = now e, created_by = remote_addr rq\<rparr>]"
  using assms by (simp_all add: create_data_def Let_def)

lemma create_data_201_iff:
  "status (fst (create_data e rq st)) = 201 \<longleftrightarrow> is_json rq \<and> (\<exists>v. get_json rq = Inr v \<and> truthy v)"
  by (auto simp: create_data_def Let_def split: sum.splits)

lemma create_data_store_unchanged:
  "status (fst (create_data e rq st)) \<noteq> 201 \<Longrightarrow> snd (create_data e rq st) = st"
  by (auto simp: create_data_def Let_def split: sum.splits)

lemma create_data_extends: "\<exists>ys. snd (create_data e rq st) = st @ ys"
  by (auto simp: create_data_def Let_def split: sum.splits)

lemma handle_extends: "c \<noteq> ClearData \<Longrightarrow> \<exists>ys. snd (handle e c st) = st @ ys"
  by (cases c) (simp_all add: create_data_extends)

lemma snd_run_Cons:
  "snd (run ((e, c) # evs) st) = snd (run evs (snd (handle e c st)))"
  by (simp split: prod.splits)

lemma fst_run_Cons:
  "fst (run ((e, c) # evs) st) =
     (c, fst (handle e c st)) # fst (run evs (snd (handle e c st)))"
  by (simp split: prod.splits)

lemma run_extends: "no_delete evs \<Longrightarrow> \<exists>ys. snd (run evs st) = st @ ys"
proof (induction evs arbitrary: st)
  case Nil
  then show ?case by simp
next
  case (Cons ev evs)
  obtain e c where ev: "ev = (e, c)" by (cases ev)
  from Cons.prems ev have c: "c \<noteq> ClearData" and nd: "no_delete evs" by simp_all
  from handle_extends [OF c] obtain ys where ys: "snd (handle e c st) = st @ ys" by blast
  from Cons.IH [OF nd] obtain zs where zs: "snd (run evs (st @ ys)) = (st @ ys) @ zs" by blast
  have "snd (run (ev # evs) st) = st @ (ys @ zs)"
    using ys zs ev by (simp add: snd_run_Cons del: run.simps)
  then show ?case by blast
qed

lemma field_item_json [simp]:
  "field ''id'' (item_json it) = Some (JStr (item_id it))"
  "field ''data'' (item_json it) = Some (item_data it)"
  by (simp_all add: item_json_def)

lemma get_data_by_id_found:
  "find (\<lambda>it. item_id it = i) st = Some it \<Longrightarrow>
     status (get_data_by_id e i st) = 200 \<and>
     body (get_data_by_id e i st) =
       JObj [(''success'', JBool True), (''item'', item_json it), (''timestamp'', JStr (now e))]"
  by (simp add: get_data_by_id_def)

lemma get_data_by_id_missing:
  "find (\<lambda>it. item_id it = i) st = None \<Longrightarrow>
     status (get_data_by_id e i st) = 404 \<and>
     body (get_data_by_id e i st) =
       JObj [(''success'', JBool False), (''error'', JStr (''Item with ID '' @ i @ '' not found''))]"
  by (simp add: get_data_by_id_def)

lemma find_fresh_then_new:
  assumes "i \<notin> set (map item_id st)" "item_id it = i"
  shows "find (\<lambda>x. item_id x = i) (st @ it # ys) = Some it"
proof -
  from assms(1) have "find (\<lambda>x. item_id x = i) st = None"
    by (auto simp: find_None_iff)
  with assms(2) show ?thesis by (simp add: find_append_first)
qed

lemmas ex_defs = ex_env1_def ex_env2_def ex_env3_def ex_widget_def ex_pair_def ex_malformed_def
  ex_no_bytes_def ex_plain_text_def ex_store_def
lemmas handler_defs = create_data_def get_data_def get_data_by_id_def get_status_def clear_data_def
  not_found_def internal_error_def health_check_def root_def jsonify_def item_json_def
  returned_id_def returned_data_def statistics_total_items_def Let_def

section \<open>Creating an item and reading it back\<close>

text \<open>
  C1. A POST that is answered 201 returns an id, and as long as no DELETE is served in
  between (any other calls may be), \<open>GET /api/data/{that id}\<close> is answered 200 with an
  item whose \<open>data\<close> is the payload that was posted. The id drawn from \<open>uuid4\<close> is
  taken to be new, that is, not the id of an item already stored.
\<close>

theorem post_then_get_by_id_roundtrip:
  assumes post: "create_data e rq st = (r, st1)" and ok: "status r = 201"
    and fresh: "uuid4 e \<notin> set (map item_id st)"
    and nd: "no_delete evs" and later: "run evs st1 = (tr, st2)"
  shows "\<exists>i P. returned_id r = Some i \<and> get_json rq = Inr P \<and>
           status (get_data_by_id e' i st2) = 200 \<and>
           returned_data (get_data_by_id e' i st2) = Some P"
proof -
  from post ok have "status (fst (create_data e rq st)) = 201" by simp
  then obtain P where j: "is_json rq" and P: "get_json rq = Inr P" and t: "truthy P"
    by (auto simp: create_data_201_iff)
  let ?it = "\<lparr>item_id = uuid4 e, item_data = P, created_at = now e, created_by = remote_addr rq\<rparr>"
  from create_data_truthy [OF j P t, of e st] post
  have r: "field ''item'' (body r) = Some (item_json ?it)" and st1: "st1 = st @ [?it]"
    by simp_all
  from r have rid: "returned_id r = Some (uuid4 e)"
    by (simp add: returned_id_def)
  from run_extends [OF nd, of st1] later obtain ys where "st2 = st1 @ ys" by auto
  with st1 have st2: "st2 = st @ ?it # ys" by simp
  have "find (\<lambda>x. item_id x = uuid4 e) st2 = Some ?it"
    unfolding st2 by (rule find_fresh_then_new [OF fresh]) simp
  from get_data_by_id_found [OF this, of e']
  have "status (get_data_by_id e' (uuid4 e) st2) = 200"
    and "returned_data (get_data_by_id e' (uuid4 e) st2) = Some P"
    by (simp_all add: returned_data_def)
  with rid P show ?thesis by blast
qed

theorem post_then_get_by_id_roundtrip_witness:
  "create_data ex_env1 ex_widget ex_store =
     (fst (create_data ex_env1 ex_widget ex_store), snd (create_data ex_env1 ex_widget ex_store)) \<and>
   status (fst (create_data ex_env1 ex_widget ex_store)) = 201 \<and>
   uuid4 ex_env1 \<notin> set (map item_id ex_store) \<and>
   no_delete [(ex_env2, GetData), (ex_env2, CreateData ex_pair)] \<and>
   returned_id (fst (create_data ex_env1 ex_widget ex_store)) = Some (uuid4 ex_env1) \<and>
   status (get_data_by_id ex_env3 (uuid4 ex_env1)
     (snd (run [(ex_env2, GetData), (ex_env2, CreateData ex_pair)]
        (snd (create_data ex_env1 ex_widget ex_store))))) = 200 \<and>
   returned_data (get_data_by_id ex_env3 (uuid4 ex_env1)
     (snd (run [(ex_env2, GetData), (ex_env2, CreateData ex_pair)]
        (snd (create_data ex_env1 ex_widget ex_store))))) = Some (JObj [(''name'', JStr ''widget'')])"
proof -
  let ?evs = "[(ex_env2, GetData), (ex_env2, CreateData ex_pair)]"
  let ?p = "create_data ex_env1 ex_widget ex_store"
  have h1: "?p = (fst ?p, snd ?p)" by simp
  have h2: "status (fst ?p) = 201" by (simp add: ex_defs handler_defs)
  have h3: "uuid4 ex_env1 \<notin> set (map item_id ex_store)" by (simp add: ex_defs)
  have h4: "no_delete ?evs" by simp
  have h5: "run ?evs (snd ?p) = (fst (run ?evs (snd ?p)), snd (run ?evs (snd ?p)))" by simp
  have rid: "returned_id (fst ?p) = Some (uuid4 ex_env1)" by (simp add: ex_defs handler_defs)
  have P: "get_json ex_widget = Inr (JObj [(''name'', JStr ''widget'')])" by (simp add: ex_defs)
  from post_then_get_by_id_roundtrip [OF h1 h2 h3 h4 h5, of ex_env3] rid P
  have "status (get_data_by_id ex_env3 (uuid4 ex_env1) (snd (run ?evs (snd ?p)))) = 200 \<and>
        returned_data (get_data_by_id ex_env3 (uuid4 ex_env1) (snd (run ?evs (snd ?p)))) =
          Some (JObj [(''name'', JStr ''widget'')])"
    by auto
  with h1 h2 h3 h4 rid show ?thesis by blast
qed

section \<open>Items are listed in the order posted\<close>

lemma handle_no_delete_data:
  assumes "c \<noteq> ClearData"
  shows "map item_data (snd (handle e c st)) = map item_data st @ posted [(c, fst (handle e c st))]"
    and "length (snd (handle e c st)) = length st + successes [(c, fst (handle e c st))]"
  using assms
  by (cases c; auto simp: create_data_def Let_def split: sum.splits)+

lemma posted_Cons: "posted (x # tr) = posted [x] @ posted tr"
  by (induction "x # tr" rule: posted.induct) (auto split: sum.splits)

lemma successes_Cons: "successes (x # tr) = successes [x] + successes tr"
  by (induction "x # tr" rule: successes.induct) auto

lemma run_no_delete_data:
  "no_delete evs \<Longrightarrow>
     map item_data (snd (run evs st)) = map item_data st @ posted (fst (run evs st)) \<and>
     length (snd (run evs st)) = length st + successes (fst (run evs st))"
proof (induction evs arbitrary: st)
  case Nil
  then show ?case by simp
next
  case (Cons ev evs)
  obtain e c where ev: "ev = (e, c)" by (cases ev)
  from Cons.prems ev have c: "c \<noteq> ClearData" and nd: "no_delete evs" by simp_all
  let ?r = "fst (handle e c st)" and ?st = "snd (handle e c st)"
  note IH = Cons.IH [OF nd, of ?st]
  have S: "snd (run (ev # evs) st) = snd (run evs ?st)"
    unfolding ev by (rule snd_run_Cons)
  have F: "fst (run (ev # evs) st) = (c, ?r) # fst (run evs ?st)"
    unfolding ev by (rule fst_run_Cons)
  have "map item_data (snd (run evs ?st)) = map item_data ?st @ posted (fst (run evs ?st))"
    using IH by (rule conjunct1)
  also have "map item_data ?st = map item_data st @ posted [(c, ?r)]"
    by (rule handle_no_delete_data(1) [OF c])
  finally have A: "map item_data (snd (run (ev # evs) st)) =
      map item_data st @ posted (fst (run (ev # evs) st))"
    unfolding S F by (subst posted_Cons) simp
  have "length (snd (run evs ?st)) = length ?st + successes (fst (run evs ?st))"
    using IH by (rule conjunct2)
  also have "length ?st = length st + successes [(c, ?r)]"
    by (rule handle_no_delete_data(2) [OF c])
  finally have B: "length (snd (run (ev # evs) st)) =
      length st + successes (fst (run (ev # evs) st))"
    unfolding S F by (subst successes_Cons) simp
  from A B show ?case by blast
qed

lemma get_data_fields:
  "status (get_data e st) = 200"
  "field ''success'' (body (get_data e st)) = Some (JBool True)"
  "field ''data'' (body (get_data e st)) = Some (JArr (map item_json st))"
  "field ''count'' (body (get_data e st)) = Some (JInt (int (length st)))"
  "field ''timestamp'' (body (get_data e st)) = Some (JStr (now e))"
  by (simp_all add: get_data_def Let_def)

lemma get_status_fields:
  "status (get_status e st) = 200"
  "statistics_total_items (get_status e st) = Some (JInt (int (length st)))"
  "field ''timestamp'' (body (get_status e st)) = None"
  by (simp_all add: get_status_def statistics_total_items_def)

text \<open>
  C6. Starting from the empty store, after any calls without a DELETE of which \<open>N\<close> are
  POSTs answered 201, \<open>GET /api/data\<close> is answered with \<open>count = N\<close> and a \<open>data\<close> array
  of \<open>N\<close> items whose payloads are the posted payloads in the order posted, and
  \<open>GET /api/status\<close> reports \<open>statistics.total_items = N\<close>.
\<close>

theorem posts_are_listed_in_order:
  assumes "no_delete evs" and "run evs [] = (tr, st)"
  shows "status (get_data e st) = 200 \<and>
         field ''count'' (body (get_data e st)) = Some (JInt (int (successes tr))) \<and>
         (\<exists>items. field ''data'' (body (get_data e st)) = Some (JArr items) \<and>
                   length items = successes tr \<and>
                   map (field ''data'') items = map Some (posted tr)) \<and>
         statistics_total_items (get_status e' st) = Some (JInt (int (successes tr)))"
proof -
  from run_no_delete_data [OF assms(1), of "[]"] assms(2)
  have d: "map item_data st = posted tr" and n: "length st = successes tr" by simp_all
  have "map (field ''data'') (map item_json st) = map Some (map item_data st)"
    by simp
  with d n show ?thesis
    by (simp add: get_data_fields get_status_fields)
qed

theorem posts_are_listed_in_order_witness:
  "no_delete [(ex_env1, CreateData ex_widget), (ex_env2, CreateData ex_malformed), (ex_env2, GetStatus),
              (ex_env3, CreateData ex_pair)] \<and>
   successes (fst (run [(ex_env1, CreateData ex_widget), (ex_env2, CreateData ex_malformed),
                        (ex_env2, GetStatus), (ex_env3, CreateData ex_pair)] [])) = 2 \<and>
   posted (fst (run [(ex_env1, CreateData ex_widget), (ex_env2, CreateData ex_malformed),
                        (ex_env2, GetStatus), (ex_env3, CreateData ex_pair)] [])) =
     [JObj [(''name'', JStr ''widget'')], JArr [JInt 1, JInt 2]] \<and>
   field ''count'' (body (get_data ex_env3
     (snd (run [(ex_env1, CreateData ex_widget), (ex_env2, CreateData ex_malformed),
                (ex_env2, GetStatus), (ex_env3, CreateData ex_pair)] [])))) = Some (JInt 2) \<and>
   statistics_total_items (get_status ex_env3
     (snd (run [(ex_env1, CreateData ex_widget), (ex_env2, CreateData ex_malformed),
                (ex_env2, GetStatus), (ex_env3, CreateData ex_pair)] []))) = Some (JInt 2)"
proof -
  let ?evs = "[(ex_env1, CreateData ex_widget), (ex_env2, CreateData ex_malformed),
               (ex_env2, GetStatus), (ex_env3, CreateData ex_pair)]"
  have h1: "no_delete ?evs" by simp
  have h2: "run ?evs [] = (fst (run ?evs []), snd (run ?evs []))" by simp
  have n: "successes (fst (run ?evs [])) = 2"
    by (simp add: ex_defs create_data_def jsonify_def Let_def)
  have p: "posted (fst (run ?evs [])) = [JObj [(''name'', JStr ''widget'')], JArr [JInt 1, JInt 2]]"
    by (simp add: ex_defs create_data_def jsonify_def Let_def)
  from posts_are_listed_in_order [OF h1 h2, of ex_env3 ex_env3] n
  have "field ''count'' (body (get_data ex_env3 (snd (run ?evs [])))) = Some (JInt 2) \<and>
        statistics_total_items (get_status ex_env3 (snd (run ?evs []))) = Some (JInt 2)"
    by simp
  with h1 n p show ?thesis by blast
qed

section \<open>Clearing the store\<close>

lemma clear_data_fields:
  "status (fst (clear_data e st)) = 200"
  "field ''success'' (body (fst (clear_data e st))) = Some (JBool True)"
  "field ''message'' (body (fst (clear_data e st))) =
     Some (JStr (''Cleared '' @ str_nat (length st) @ '' items''))"
  "field ''timestamp'' (body (fst (clear_data e st))) = Some (JStr (now e))"
  "snd (clear_data e st) = []"
  by (simp_all add: clear_data_def Let_def)

text \<open>
  C7. Whatever the store holds, \<open>DELETE /api/data\<close> is answered 200 with \<open>success\<close> true
  and the message \<open>Cleared n items\<close>, \<open>n\<close> being the number of items the store held, and
  the \<open>GET /api/data\<close> served next is answered with \<open>count = 0\<close> and an empty \<open>data\<close> array.
\<close>

theorem delete_then_get_is_empty:
  "status (fst (clear_data e st)) = 200 \<and>
   field ''success'' (body (fst (clear_data e st))) = Some (JBool True) \<and>
   field ''message'' (body (fst (clear_data e st))) =
     Some (JStr (''Cleared '' @ str_nat (length st) @ '' items'')) \<and>
   status (get_data e' (snd (clear_data e st))) = 200 \<and>
   field ''count'' (body (get_data e' (snd (clear_data e st)))) = Some (JInt 0) \<and>
   field ''data'' (body (get_data e' (snd (clear_data e st)))) = Some (JArr [])"
  by (simp add: clear_data_fields get_data_fields)

theorem delete_then_get_is_empty_witness:
  "field ''message'' (body (fst (clear_data ex_env1 ex_store))) = Some (JStr ''Cleared 1 items'') \<and>
   field ''count'' (body (get_data ex_env2 (snd (clear_data ex_env1 ex_store)))) = Some (JInt 0) \<and>
   field ''data'' (body (get_data ex_env2 (snd (clear_data ex_env1 ex_store)))) = Some (JArr [])"
proof -
  have "str_nat (length ex_store) = ''1''"
    by (simp add: ex_store_def str_nat.simps digit_def)
  with delete_then_get_is_empty [of ex_env1 ex_store ex_env2] show ?thesis
    by simp
qed

section \<open>Looking up an id that was never handed out\<close>

lemma returned_id_create_data:
  "status (fst (create_data e rq st)) = 201 \<Longrightarrow>
     returned_id (fst (create_data e rq st)) = Some (uuid4 e)"
proof -
  assume "status (fst (create_data e rq st)) = 201"
  then obtain v where "is_json rq" "get_json rq = Inr v" "truthy v"
    by (auto simp: create_data_201_iff)
  from create_data_truthy(2) [OF this, of e st] show ?thesis
    by (simp add: returned_id_def)
qed

lemma handle_ids:
  "set (map item_id (snd (handle e c st))) \<subseteq>
     set (map item_id st) \<union> set (returned_ids [(c, fst (handle e c st))])"
proof (cases c)
  case (CreateData rq)
  show ?thesis
  proof (cases "status (fst (create_data e rq st)) = 201")
    case True
    then obtain v where "is_json rq" "get_json rq = Inr v" "truthy v"
      by (auto simp: create_data_201_iff)
    from create_data_truthy(3) [OF this, of e st] returned_id_create_data [OF True] True
    show ?thesis using CreateData by simp
  next
    case False
    from create_data_store_unchanged [OF this] show ?thesis using CreateData by simp
  qed
qed (simp_all add: clear_data_fields)

lemma returned_ids_Cons: "returned_ids (x # tr) = returned_ids [x] @ returned_ids tr"
  by (induction "x # tr" rule: returned_ids.induct) (auto split: option.splits)

lemma run_ids:
  "set (map item_id (snd (run evs st))) \<subseteq>
     set (map item_id st) \<union> set (returned_ids (fst (run evs st)))"
proof (induction evs arbitrary: st)
  case Nil
  show ?case by simp
next
  case (Cons ev evs)
  obtain e c where ev: "ev = (e, c)" by (cases ev)
  let ?r = "fst (handle e c st)" and ?st = "snd (handle e c st)"
  have S: "snd (run (ev # evs) st) = snd (run evs ?st)"
    unfolding ev by (rule snd_run_Cons)
  have F: "fst (run (ev # evs) st) = (c, ?r) # fst (run evs ?st)"
    unfolding ev by (rule fst_run_Cons)
  have "set (map item_id (snd (run evs ?st))) \<subseteq>
      set (map item_id ?st) \<union> set (returned_ids (fst (run evs ?st)))"
    by (rule Cons.IH)
  also have "\<dots> \<subseteq> (set (map item_id st) \<union> set (returned_ids [(c, ?r)])) \<union>
      set (returned_ids (fst (run evs ?st)))"
    using handle_ids [of e c st] by blast
  also have "\<dots> = set (map item_id st) \<union> set (returned_ids ((c, ?r) # fst (run evs ?st)))"
    by (subst (2) returned_ids_Cons) auto
  finally show ?case unfolding S F .
qed

text \<open>
  C8. After any calls served from the empty store, an id that none of the POSTs
  answered 201 has returned matches no stored item, and \<open>GET /api/data/{id}\<close> is answered
  404 with \<open>success\<close> false and the error message \<open>Item with ID {id} not found\<close>, which
  spells the id out.
\<close>

theorem unknown_id_is_not_found:
  assumes "run evs [] = (tr, st)" and "i \<notin> set (returned_ids tr)"
  shows "i \<notin> set (map item_id st) \<and>
         status (get_data_by_id e i st) = 404 \<and>
         body (get_data_by_id e i st) =
           JObj [(''success'', JBool False),
                 (''error'', JStr (''Item with ID '' @ i @ '' not found''))]"
proof -
  from run_ids [of evs "[]"] assms have no: "i \<notin> set (map item_id st)" by auto
  then have "find (\<lambda>it. item_id it = i) st = None"
    by (auto simp: find_None_iff)
  from get_data_by_id_missing [OF this, of e] no show ?thesis by simp
qed

theorem unknown_id_is_not_found_witness:
  "''nope'' \<notin> set (returned_ids (fst (run [(ex_env1, CreateData ex_widget), (ex_env2, ClearData),
       (ex_env3, CreateData ex_pair)] []))) \<and>
   status (get_data_by_id ex_env3 ''nope''
     (snd (run [(ex_env1, CreateData ex_widget), (ex_env2, ClearData),
                (ex_env3, CreateData ex_pair)] []))) = 404 \<and>
   body (get_data_by_id ex_env3 ''nope''
     (snd (run [(ex_env1, CreateData ex_widget), (ex_env2, ClearData),
                (ex_env3, CreateData ex_pair)] []))) =
     JObj [(''success'', JBool False), (''error'', JStr ''Item with ID nope not found'')]"
proof -
  let ?evs = "[(ex_env1, CreateData ex_widget), (ex_env2, ClearData), (ex_env3, CreateData ex_pair)]"
  have h1: "run ?evs [] = (fst (run ?evs []), snd (run ?evs []))" by simp
  have h2: "''nope'' \<notin> set (returned_ids (fst (run ?evs [])))"
    by (simp add: ex_defs handler_defs)
  from unknown_id_is_not_found [OF h1 h2, of ex_env3] h2 show ?thesis by simp
qed

section \<open>Counts inside a response\<close>

text \<open>
  C10. In every \<open>GET /api/data\<close> response \<open>count\<close> is the number of elements of the \<open>data\<close>
  array. In every POST response with status 201 \<open>total_items\<close> is the length of the store
  right after the append, which is at least 1, and \<open>item\<close> is the last element of that
  store.
\<close>

theorem counts_match_the_store:
  "(\<exists>items. field ''data'' (body (get_data e st)) = Some (JArr items) \<and>
      field ''count'' (body (get_data e st)) = Some (JInt (int (length items)))) \<and>
   (status (fst (create_data e rq st)) = 201 \<longrightarrow>
      field ''total_items'' (body (fst (create_data e rq st))) =
        Some (JInt (int (length (snd (create_data e rq st))))) \<and>
      1 \<le> length (snd (create_data e rq st)) \<and>
      snd (create_data e rq st) \<noteq> [] \<and>
      field ''item'' (body (fst (create_data e rq st))) =
        Some (item_json (last (snd (create_data e rq st)))))"
proof -
  have "status (fst (create_data e rq st)) = 201 \<longrightarrow>
      field ''total_items'' (body (fst (create_data e rq st))) =
        Some (JInt (int (length (snd (create_data e rq st))))) \<and>
      1 \<le> length (snd (create_data e rq st)) \<and>
      snd (create_data e rq st) \<noteq> [] \<and>
      field ''item'' (body (fst (create_data e rq st))) =
        Some (item_json (last (snd (create_data e rq st))))"
  proof
    assume "status (fst (create_data e rq st)) = 201"
    then obtain v where "is_json rq" "get_json rq = Inr v" "truthy v"
      by (auto simp: create_data_201_iff)
    from create_data_truthy(2,3) [OF this, of e st]
    show "field ''total_items'' (body (fst (create_data e rq st))) =
        Some (JInt (int (length (snd (create_data e rq st))))) \<and>
      1 \<le> length (snd (create_data e rq st)) \<and>
      snd (create_data e rq st) \<noteq> [] \<and>
      field ''item'' (body (fst (create_data e rq st))) =
        Some (item_json (last (snd (create_data e rq st))))"
      by simp
  qed
  then show ?thesis by (simp add: get_data_fields)
qed

theorem counts_match_the_store_witness:
  "status (fst (create_data ex_env1 ex_widget ex_store)) = 201 \<and>
   field ''total_items'' (body (fst (create_data ex_env1 ex_widget ex_store))) = Some (JInt 2) \<and>
   field ''item'' (body (fst (create_data ex_env1 ex_widget ex_store))) =
     Some (item_json (last (snd (create_data ex_env1 ex_widget ex_store)))) \<and>
   field ''count'' (body (get_data ex_env1 ex_store)) = Some (JInt 1)"
proof -
  have h: "status (fst (create_data ex_env1 ex_widget ex_store)) = 201"
    by (simp add: ex_defs handler_defs)
  have n: "length (snd (create_data ex_env1 ex_widget ex_store)) = 2"
    by (simp add: ex_defs handler_defs)
  have c: "field ''count'' (body (get_data ex_env1 ex_store)) = Some (JInt 1)"
    by (simp add: get_data_fields ex_store_def)
  from counts_match_the_store [of ex_env1 ex_store ex_widget] h n c show ?thesis
    by simp
qed

section \<open>Which payloads a POST accepts\<close>

text \<open>
  The claim C2 as stated, that every decoded JSON value is accepted, fails at the empty
  object, the empty array and the empty string: each is answered 400.
\<close>

theorem empty_payloads_rejected_counterexample:
  "is_json (ex_widget\<lparr>get_json := Inr (JObj [])\<rparr>) \<and>
   status (fst (create_data ex_env1 (ex_widget\<lparr>get_json := Inr (JObj [])\<rparr>) [])) = 400 \<and>
   status (fst (create_data ex_env1 (ex_widget\<lparr>get_json := Inr (JArr [])\<rparr>) [])) = 400 \<and>
   status (fst (create_data ex_env1 (ex_widget\<lparr>get_json := Inr (JStr [])\<rparr>) [])) = 400 \<and>
   snd (create_data ex_env1 (ex_widget\<lparr>get_json := Inr (JObj [])\<rparr>) []) = []"
  by (simp add: ex_defs create_data_def jsonify_def)

text \<open>
  C2, amended. A POST that announces JSON and whose body decodes to a value that is not
  empty (true in Python's sense: a non-empty object, array or string, a non-zero number,
  or \<open>true\<close>) is answered 201 and the value is stored as the item's \<open>data\<close>, whatever its
  JSON type. When the body decodes to \<open>null\<close>, the empty object, the empty array or the
  empty string, the answer is 400 with the error \<open>Request body cannot be empty\<close>.
\<close>

theorem nonempty_payloads_accepted:
  assumes "is_json rq" and "get_json rq = Inr v"
  shows "(truthy v \<longrightarrow>
            status (fst (create_data e rq st)) = 201 \<and>
            returned_data (fst (create_data e rq st)) = Some v \<and>
            map item_data (snd (create_data e rq st)) = map item_data st @ [v]) \<and>
         (v \<in> {JNull, JObj [], JArr [], JStr []} \<longrightarrow>
            status (fst (create_data e rq st)) = 400 \<and>
            field ''error'' (body (fst (create_data e rq st))) =
              Some (JStr ''Request body cannot be empty'') \<and>
            snd (create_data e rq st) = st)"
proof (intro conjI impI)
  assume t: "truthy v"
  from create_data_truthy [OF assms t, of e st]
  show "status (fst (create_data e rq st)) = 201"
    and "returned_data (fst (create_data e rq st)) = Some v"
    and "map item_data (snd (create_data e rq st)) = map item_data st @ [v]"
    by (simp_all add: returned_data_def)
next
  assume "v \<in> {JNull, JObj [], JArr [], JStr []}"
  then have f: "\<not> truthy v" by auto
  from create_data_falsy [OF assms f, of e st]
  show "status (fst (create_data e rq st)) = 400"
    and "field ''error'' (body (fst (create_data e rq st))) =
           Some (JStr ''Request body cannot be empty'')"
    and "snd (create_data e rq st) = st"
    by simp_all
qed

theorem nonempty_payloads_accepted_witness:
  "is_json ex_pair \<and> get_json ex_pair = Inr (JArr [JInt 1, JInt 2]) \<and>
   truthy (JArr [JInt 1, JInt 2]) \<and>
   status (fst (create_data ex_env1 ex_pair ex_store)) = 201 \<and>
   returned_data (fst (create_data ex_env1 ex_pair ex_store)) = Some (JArr [JInt 1, JInt 2]) \<and>
   is_json (ex_pair\<lparr>get_json := Inr JNull\<rparr>) \<and>
   status (fst (create_data ex_env1 (ex_pair\<lparr>get_json := Inr JNull\<rparr>) ex_store)) = 400 \<and>
   snd (create_data ex_env1 (ex_pair\<lparr>get_json := Inr JNull\<rparr>) ex_store) = ex_store"
proof -
  have a1: "is_json ex_pair" and a2: "get_json ex_pair = Inr (JArr [JInt 1, JInt 2])"
    by (simp_all add: ex_pair_def)
  have b1: "is_json (ex_pair\<lparr>get_json := Inr JNull\<rparr>)"
    and b2: "get_json (ex_pair\<lparr>get_json := Inr JNull\<rparr>) = Inr JNull"
    by (simp_all add: ex_pair_def)
  from nonempty_payloads_accepted [OF a1 a2, of ex_env1 ex_store]
       nonempty_payloads_accepted [OF b1 b2, of ex_env1 ex_store] a1 a2 b1
  show ?thesis by simp
qed

section \<open>Which responses carry a timestamp\<close>

lemma health_root_timestamp:
  "field ''timestamp'' (body (health_check e)) = Some (JStr (now e))"
  "field ''timestamp'' (body (root e)) = Some (JStr (now e))"
  by (simp_all add: health_check_def root_def)

lemma create_data_no_timestamp:
  "field ''timestamp'' (body (fst (create_data e rq st))) = None"
  by (simp add: create_data_def Let_def split: sum.splits)

lemma create_data_created_at:
  assumes "status (fst (create_data e rq st)) = 201"
  shows "\<exists>it. field ''item'' (body (fst (create_data e rq st))) = Some it \<and>
              field ''created_at'' it = Some (JStr (now e))"
proof -
  from assms obtain v where "is_json rq" "get_json rq = Inr v" "truthy v"
    by (auto simp: create_data_201_iff)
  from create_data_truthy(2) [OF this, of e st] show ?thesis
    by (simp add: item_json_def)
qed

lemma get_data_by_id_timestamp:
  "field ''timestamp'' (body (get_data_by_id e i st)) =
     (if status (get_data_by_id e i st) = 200 then Some (JStr (now e)) else None)"
  by (simp add: get_data_by_id_def split: option.splits)

lemma get_data_by_id_status:
  "status (get_data_by_id e i st) = 200 \<or> status (get_data_by_id e i st) = 404"
  by (simp add: get_data_by_id_def split: option.splits)

lemma error_handlers_no_timestamp:
  "field ''timestamp'' (body (not_found rq)) = None"
  "field ''timestamp'' (body internal_error) = None"
  by (simp_all add: not_found_def internal_error_def)

lemma get_status_last_activity:
  "\<exists>s. field ''statistics'' (body (get_status e st)) = Some s \<and>
         field ''last_activity'' s = Some (JStr (now e))"
  by (simp add: get_status_def)

text \<open>
  The claim C4 as stated, that every response has a top-level \<open>timestamp\<close>, fails at the
  201 response of a POST, at the \<open>/api/status\<close> response and at the 404 response for a
  path with no route.
\<close>

theorem responses_without_timestamp_counterexample:
  "status (fst (create_data ex_env1 ex_widget [])) = 201 \<and>
   field ''timestamp'' (body (fst (create_data ex_env1 ex_widget []))) = None \<and>
   field ''timestamp'' (body (get_status ex_env1 [])) = None \<and>
   field ''timestamp'' (body (not_found ex_widget)) = None"
  by (simp add: ex_defs create_data_def get_status_def not_found_def jsonify_def item_json_def Let_def)

text \<open>
  C4, amended. The responses of \<open>GET /health\<close>, \<open>GET /\<close>, \<open>GET /api/data\<close> and
  \<open>DELETE /api/data\<close>, and the 200 response of \<open>GET /api/data/{id}\<close>, have a top-level
  \<open>timestamp\<close>, which is \<open>datetime.now().isoformat()\<close> read while the response is built, the
  same format on all of them. No other response has a top-level \<open>timestamp\<close>: not a POST
  response (its 201 response carries the time as \<open>item.created_at\<close>), not the
  \<open>/api/status\<close> response (it carries the time as \<open>statistics.last_activity\<close>), and no
  404 or 500 error response.
\<close>

theorem timestamp_where_present:
  "field ''timestamp'' (body (health_check e)) = Some (JStr (now e)) \<and>
   field ''timestamp'' (body (root e)) = Some (JStr (now e)) \<and>
   field ''timestamp'' (body (get_data e st)) = Some (JStr (now e)) \<and>
   field ''timestamp'' (body (fst (clear_data e st))) = Some (JStr (now e)) \<and>
   (status (get_data_by_id e i st) = 200 \<longrightarrow>
      field ''timestamp'' (body (get_data_by_id e i st)) = Some (JStr (now e))) \<and>
   (status (get_data_by_id e i st) \<noteq> 200 \<longrightarrow>
      status (get_data_by_id e i st) = 404 \<and>
      field ''timestamp'' (body (get_data_by_id e i st)) = None) \<and>
   field ''timestamp'' (body (fst (create_data e rq st))) = None \<and>
   (status (fst (create_data e rq st)) = 201 \<longrightarrow>
      (\<exists>it. field ''item'' (body (fst (create_data e rq st))) = Some it \<and>
            field ''created_at'' it = Some (JStr (now e)))) \<and>
   field ''timestamp'' (body (get_status e st)) = None \<and>
   (\<exists>s. field ''statistics'' (body (get_status e st)) = Some s \<and>
        field ''last_activity'' s = Some (JStr (now e))) \<and>
   field ''timestamp'' (body (not_found rq')) = None \<and>
   field ''timestamp'' (body internal_error) = None"
  using get_data_by_id_status [of e i st] create_data_created_at [of e rq st]
    get_status_last_activity [of e st]
  by (auto simp: health_root_timestamp get_data_fields clear_data_fields get_status_fields
      get_data_by_id_timestamp create_data_no_timestamp error_handlers_no_timestamp)

theorem timestamp_where_present_witness:
  "status (get_data_by_id ex_env2 ''c3d5e7f9-2b4a-4c6e-8f10-1a2b3c4d5e6f'' ex_store) = 200 \<and>
   field ''timestamp'' (body (get_data_by_id ex_env2 ''c3d5e7f9-2b4a-4c6e-8f10-1a2b3c4d5e6f'' ex_store)) =
     Some (JStr ''2024-05-01T10:00:01.250000'') \<and>
   status (get_data_by_id ex_env2 ''nope'' ex_store) = 404 \<and>
   field ''timestamp'' (body (get_data_by_id ex_env2 ''nope'' ex_store)) = None \<and>
   status (fst (create_data ex_env2 ex_widget ex_store)) = 201 \<and>
   field ''timestamp'' (body (fst (create_data ex_env2 ex_widget ex_store))) = None \<and>
   field ''timestamp'' (body (get_data ex_env2 ex_store)) = Some (JStr ''2024-05-01T10:00:01.250000'')"
proof -
  have h1: "status (get_data_by_id ex_env2 ''c3d5e7f9-2b4a-4c6e-8f10-1a2b3c4d5e6f'' ex_store) = 200"
    by (simp add: ex_defs get_data_by_id_def jsonify_def)
  have h2: "status (get_data_by_id ex_env2 ''nope'' ex_store) \<noteq> 200"
    by (simp add: ex_defs get_data_by_id_def jsonify_def)
  have h3: "status (fst (create_data ex_env2 ex_widget ex_store)) = 201"
    by (simp add: ex_defs create_data_def jsonify_def Let_def)
  have n: "now ex_env2 = ''2024-05-01T10:00:01.250000''"
    by (simp add: ex_env2_def)
  from timestamp_where_present [of ex_env2 ex_store "''c3d5e7f9-2b4a-4c6e-8f10-1a2b3c4d5e6f''" ex_widget]
       timestamp_where_present [of ex_env2 ex_store "''nope''" ex_widget] h1 h2 h3 n
  show ?thesis by simp
qed

section \<open>A body that does not decode\<close>

text \<open>
  C3 holds for a request that does not announce JSON and for a body that decodes to an
  empty value, both answered 400 (\<open>create_data_not_json\<close>, \<open>create_data_falsy\<close>). It fails
  for a body that is malformed JSON: \<open>request.get_json()\<close> raises, \<open>except Exception\<close>
  catches the exception, and the answer is 500 \<open>Internal server error\<close>.
\<close>

theorem malformed_body_answered_500:
  "is_json ex_malformed \<and>
   status (fst (create_data ex_env1 ex_malformed ex_store)) = 500 \<and>
   field ''success'' (body (fst (create_data ex_env1 ex_malformed ex_store))) = Some (JBool False) \<and>
   field ''error'' (body (fst (create_data ex_env1 ex_malformed ex_store))) =
     Some (JStr ''Internal server error'') \<and>
   field ''details'' (body (fst (create_data ex_env1 ex_malformed ex_store))) =
     Some (JStr ''400 Bad Request: The browser (or proxy) sent a request that this server could not understand.'')"
  by (simp add: ex_malformed_def create_data_def jsonify_def)

text \<open>
  C5 holds in its part about the store: a POST that is not answered 201 leaves the store
  as it was (\<open>create_data_store_unchanged\<close>), and it holds for a request that does not
  announce JSON. Its status 400 fails for a body of no bytes sent as JSON: the body
  does not decode, \<open>request.get_json()\<close> raises, and the answer is 500; the store is
  unchanged.
\<close>

theorem no_bytes_body_answered_500:
  "is_json ex_no_bytes \<and>
   status (fst (create_data ex_env1 ex_no_bytes ex_store)) = 500 \<and>
   field ''error'' (body (fst (create_data ex_env1 ex_no_bytes ex_store))) =
     Some (JStr ''Internal server error'') \<and>
   snd (create_data ex_env1 ex_no_bytes ex_store) = ex_store \<and>
   status (fst (create_data ex_env1 ex_plain_text ex_store)) = 400 \<and>
   snd (create_data ex_env1 ex_plain_text ex_store) = ex_store"
  by (simp add: ex_no_bytes_def ex_plain_text_def create_data_def jsonify_def)

end
